theory Spec2Isabelle
  imports Main "HOL-Library.Sublist" "HOL-Library.Multiset"
begin

section \<open>Strings\<close>

text \<open>
  Addresses and response texts are Python \<open>str\<close> values; they are modelled as
  \<open>string\<close>, one \<open>char\<close> per character. Addresses are ASCII (a response URL is
  percent-encoded), and the operations below act on ASCII text: \<open>lower\<close> maps
  \<open>A\<close>..\<open>Z\<close> to \<open>a\<close>..\<open>z\<close> and \<open>is_digit\<close> recognises \<open>0\<close>..\<open>9\<close>.
\<close>

text \<open>\<open>s.startswith(p)\<close>\<close>

fun startswith :: "string \<Rightarrow> string \<Rightarrow> bool" where
  "startswith [] s = True"
| "startswith (p # ps) [] = False"
| "startswith (p # ps) (c # cs) = (p = c \<and> startswith ps cs)"

text \<open>\<open>p in s\<close> on strings: \<open>p\<close> occurs in \<open>s\<close> as a contiguous substring.\<close>

fun str_in :: "string \<Rightarrow> string \<Rightarrow> bool" where
  "str_in p [] = (p = [])"
| "str_in p (c # cs) = (startswith p (c # cs) \<or> str_in p cs)"

definition lower_char :: "char \<Rightarrow> char" where
  "lower_char c =
     (let n = (of_char c :: nat) in if 65 \<le> n \<and> n \<le> 90 then char_of (n + 32) else c)"

text \<open>\<open>s.lower()\<close>\<close>

definition lower :: "string \<Rightarrow> string" where
  "lower s = map lower_char s"

definition is_digit :: "char \<Rightarrow> bool" where
  "is_digit c = (let n = (of_char c :: nat) in 48 \<le> n \<and> n \<le> 57)"

text \<open>
  \<open>s.replace(old, new)\<close> for a non-empty \<open>old\<close>: every occurrence, found from the
  left and without overlap, is replaced. The only calls in the source pass a tier marker
  such as \<open>'/236x/'\<close>; for the empty pattern, which Python treats specially, the model
  returns the string unchanged.
\<close>

function replace :: "string \<Rightarrow> string \<Rightarrow> string \<Rightarrow> string" where
  "replace old new [] = []"
| "replace old new (c # cs) =
     (if old \<noteq> [] \<and> startswith old (c # cs)
      then new @ replace old new (drop (length old) (c # cs))
      else c # replace old new cs)"
  by pat_completeness auto
termination
  by (relation "measure (\<lambda>(old, new, s). length s)") (auto simp: Suc_le_eq)

section \<open>Run state\<close>

text \<open>
  The attributes of a \<open>PinterestImageScraper\<close> that the collection and selection
  logic reads or writes: those set by \<open>__init__\<close> and the flags that
  \<open>start_scraping\<close> sets before it registers the response handler.
\<close>

record scraper =
  target :: string
  is_board :: bool
  min_width :: int
  min_height :: int
  limit :: int
  image_urls :: "(string \<times> bool) set"
  downloaded_count :: int
  start_collecting :: bool
  inside_search_results :: bool
  relevant_image_ids :: "string set"
  is_ad_search :: bool

text \<open>
  The state in which \<open>start_scraping\<close> registers the handler: the values of
  \<open>__init__\<close>, collection not yet enabled, and the advertising heuristic computed
  from the target.
\<close>

definition new_scraper :: "string \<Rightarrow> bool \<Rightarrow> int \<Rightarrow> int \<Rightarrow> int \<Rightarrow> scraper" where
  "new_scraper tgt board mw mh lim =
     \<lparr>target = tgt, is_board = board, min_width = mw, min_height = mh, limit = lim,
      image_urls = {}, downloaded_count = 0, start_collecting = False,
      inside_search_results = False, relevant_image_ids = {},
      is_ad_search = (str_in ''ad'' (lower tgt) \<or> str_in ''ads'' (lower tgt)
                      \<or> str_in ''advert'' (lower tgt))\<rparr>"

text \<open>
  One observed network exchange, as the handler reads it. \<open>response_text\<close> is
  \<open>None\<close> when \<open>await response.text()\<close> raises.
\<close>

record response =
  resource_type :: string
  response_status :: int
  response_url :: string
  response_text :: "string option"

section \<open>ResolutionNormalizer: \<open>_convert_to_high_res\<close>\<close>

text \<open>
  The regular expression of Pattern 2,
  \<^verbatim>\<open>(https://i\.pinimg\.com/)(\d+x/)(.+\.(?:jpg|jpeg|png|webp))\<close>,
  used with \<open>re.search\<close>. Group 1 is a literal and group 2 a maximal run of digits
  followed by \<open>x/\<close>; only group 3 varies and is what the matcher returns.
\<close>

text \<open>\<^verbatim>\<open>\.(?:jpg|jpeg|png|webp)\<close> at the head of the string: the text it matches.\<close>

definition ext_at :: "string \<Rightarrow> string option" where
  "ext_at s =
     (if startswith ''.jpg'' s then Some ''.jpg''
      else if startswith ''.jpeg'' s then Some ''.jpeg''
      else if startswith ''.png'' s then Some ''.png''
      else if startswith ''.webp'' s then Some ''.webp''
      else None)"

text \<open>
  \<^verbatim>\<open>.*\.(?:jpg|jpeg|png|webp)\<close> at the head of the string, greedy with
  backtracking: the dot first takes the next character (any but a newline) and the rest
  is matched after it; only when that fails is the extension tried at this position.
\<close>

fun match_tail :: "string \<Rightarrow> string option" where
  "match_tail [] = None"
| "match_tail (c # cs) =
     (case (if c = CHR 0x0A then None else match_tail cs) of
        Some m \<Rightarrow> Some (c # m)
      | None \<Rightarrow> ext_at (c # cs))"

text \<open>Removes a literal prefix, if the string starts with it.\<close>

definition strip_prefix :: "string \<Rightarrow> string \<Rightarrow> string option" where
  "strip_prefix p s = (if startswith p s then Some (drop (length p) s) else None)"

text \<open>The whole expression matched at the head of the string; the result is group 3.\<close>

definition match_here :: "string \<Rightarrow> string option" where
  "match_here s =
     (case strip_prefix ''https://i.pinimg.com/'' s of
        None \<Rightarrow> None
      | Some r \<Rightarrow>
          if takeWhile is_digit r = [] then None
          else (case strip_prefix ''x/'' (dropWhile is_digit r) of
                  None \<Rightarrow> None
                | Some t \<Rightarrow>
                    (case t of
                       [] \<Rightarrow> None
                     | c # cs \<Rightarrow>
                         if c = CHR 0x0A then None
                         else map_option (\<lambda>m. c # m) (match_tail cs))))"

text \<open>\<open>re.search\<close>: the match at the leftmost position that has one.\<close>

fun re_search :: "string \<Rightarrow> string option" where
  "re_search [] = None"
| "re_search (c # cs) =
     (case match_here (c # cs) of Some g \<Rightarrow> Some g | None \<Rightarrow> re_search cs)"

text \<open>
  \<open>_convert_to_high_res(self, url)\<close>. The result \<open>None\<close> is Python's
  \<open>None\<close>: the address is rejected as too small.
\<close>

definition convert_to_high_res :: "scraper \<Rightarrow> string \<Rightarrow> string option" where
  "convert_to_high_res s url =
     (if str_in ''/originals/'' url then Some url
      else if str_in ''/60x60/'' url \<or> str_in ''/75x75/'' url then
        (if min_width s > 100 \<or> min_height s > 100 then None else Some url)
      else if str_in ''/236x/'' url then Some (replace ''/236x/'' ''/originals/'' url)
      else if str_in ''/474x/'' url then Some (replace ''/474x/'' ''/originals/'' url)
      else if str_in ''/736x/'' url then Some (replace ''/736x/'' ''/originals/'' url)
      else if str_in ''/1200x/'' url then Some (replace ''/1200x/'' ''/originals/'' url)
      else (case re_search url of
              Some g3 \<Rightarrow> Some (''https://i.pinimg.com/'' @ ''originals/'' @ g3)
            | None \<Rightarrow> Some url))"

section \<open>RelevanceClassifier and CandidateCollector: \<open>_handle_response\<close>\<close>

text \<open>
  The identifier pattern \<^verbatim>\<open>"id":\s*"(\d+)"\<close> of \<open>re.finditer\<close>. On ASCII text
  \<^verbatim>\<open>\s\<close> matches the characters 9 to 13, 28 to 31 and the space.
\<close>

definition is_space :: "char \<Rightarrow> bool" where
  "is_space c =
     (let n = (of_char c :: nat) in (9 \<le> n \<and> n \<le> 13) \<or> (28 \<le> n \<and> n \<le> 31) \<or> n = 32)"

text \<open>
  The pattern matched at the head of the string: the digits of group 1 and the text left
  after the match. Both repetitions are greedy, and neither can give a character back,
  because the character required next is outside the class that was repeated.
\<close>

definition match_id :: "string \<Rightarrow> (string \<times> string) option" where
  "match_id s =
     (case strip_prefix (CHR 0x22 # ''id'' @ [CHR 0x22] @ '':'') s of
        None \<Rightarrow> None
      | Some r \<Rightarrow>
          (case strip_prefix [CHR 0x22] (dropWhile is_space r) of
             None \<Rightarrow> None
           | Some t \<Rightarrow>
               if takeWhile is_digit t = [] then None
               else (case strip_prefix [CHR 0x22] (dropWhile is_digit t) of
                       None \<Rightarrow> None
                     | Some rest \<Rightarrow> Some (takeWhile is_digit t, rest))))"

text \<open>
  \<open>[m.group(1) for m in re.finditer(...)]\<close>: the matches from left to right, the
  search resuming where the previous match ended.
\<close>

function find_ids :: "string \<Rightarrow> string list" where
  "find_ids [] = []"
| "find_ids (c # cs) =
     (case match_id (c # cs) of
        Some (d, rest) \<Rightarrow> d # find_ids rest
      | None \<Rightarrow> find_ids cs)"
  by pat_completeness auto
termination
proof (relation "measure length")
  show "wf (measure length)" by simp
next
  fix c :: char and cs :: string and x2 :: "string \<times> string" and x y :: string
  assume m: "match_id (c # cs) = Some x2" and xy: "(x, y) = x2"
  have le: "length (dropWhile P xs) \<le> length xs" for P and xs :: string
    by (rule length_dropWhile_le)
  from m xy obtain r t where
    r: "strip_prefix (CHR 0x22 # ''id'' @ [CHR 0x22] @ '':'') (c # cs) = Some r" and
    t: "strip_prefix [CHR 0x22] (dropWhile is_space r) = Some t" and
    y: "strip_prefix [CHR 0x22] (dropWhile is_digit t) = Some y"
    by (auto simp: match_id_def split: option.splits if_splits)
  from r have "length r \<le> length cs"
    by (auto simp: strip_prefix_def split: if_splits)
  moreover from t have "length t \<le> length r"
    using le[of is_space r] by (auto simp: strip_prefix_def split: if_splits)
  moreover from y have "length y \<le> length t"
    using le[of is_digit t] by (auto simp: strip_prefix_def split: if_splits)
  ultimately show "(y, c # cs) \<in> measure length" by simp
next
  fix c :: char and cs :: string
  show "(cs, c # cs) \<in> measure length" by simp
qed

text \<open>\<open>search_terms\<close>, as the handler builds it.\<close>

definition search_terms :: "scraper \<Rightarrow> string list" where
  "search_terms s =
     lower (target s) #
     (if is_ad_search s then [''ad'', ''ads'', ''advert'', ''advertisement'', ''marketing'']
      else [])"

text \<open>
  The first \<open>try\<close> block of the handler: a document or XHR response whose address is
  that of the search results marks the run as inside the results, and an XHR response
  whose text looks like a results payload contributes its pin identifiers. The loop over
  the search terms stops at the first term found in the address; what it does then does
  not depend on which term that was.
\<close>

definition note_search_response :: "scraper \<Rightarrow> response \<Rightarrow> scraper" where
  "note_search_response s r =
     (if resource_type r = ''document'' \<or> resource_type r = ''xhr'' then
        (if list_ex (\<lambda>term. str_in ''search/pins'' (response_url r)
                             \<and> str_in term (lower (response_url r))) (search_terms s)
         then
           (let s1 = s\<lparr>inside_search_results := True\<rparr> in
            if resource_type r = ''xhr'' then
              (case response_text r of
                 None \<Rightarrow> s1
               | Some text \<Rightarrow>
                   if list_ex (\<lambda>term. str_in term (lower text)) (search_terms s)
                      \<and> (str_in ''pin_join'' text \<or> str_in ''grid_item'' text
                           \<or> str_in ''closeup'' text)
                   then s1\<lparr>relevant_image_ids := relevant_image_ids s1 \<union> set (find_ids text)\<rparr>
                   else s1)
            else s1)
         else s)
      else s)"

text \<open>The relevance flag the handler computes for an image address (lines 434 to 449).\<close>

definition is_relevant :: "scraper \<Rightarrow> string \<Rightarrow> bool" where
  "is_relevant s url =
     (let rel = False;
          rel = (if is_ad_search s then True else rel);
          rel = (if \<exists>pin_id \<in> relevant_image_ids s. str_in pin_id url then True else rel);
          rel = (if \<not> inside_search_results s \<or> is_board s then True else rel)
      in rel)"

definition skip_patterns :: "scraper \<Rightarrow> string list" where
  "skip_patterns s =
     (if is_ad_search s then [''/spinner/'', ''/loading/'', ''/error/'', ''default_user'', ''icon_'']
      else [''/icons/'', ''/logo/'', ''/favicon/'', ''/avatar/'', ''/profile/'', ''/spinner/'',
            ''/loading/'', ''/error/'', ''default_'', ''placeholder'', ''/following/'',
            ''profile-image'', ''avatar.'', ''user-image'', ''default-user'', ''icon_''])"

text \<open>The second part of the handler: an image response with status 200.\<close>

definition handle_image :: "scraper \<Rightarrow> response \<Rightarrow> scraper" where
  "handle_image s r =
     (if resource_type r = ''image'' \<and> response_status r = 200 then
        (let url = response_url r; rel = is_relevant s url in
         if inside_search_results s \<and> \<not> is_board s \<and> \<not> is_ad_search s
            \<and> relevant_image_ids s \<noteq> {} \<and> \<not> rel then s
         else if (str_in ''/60x60/'' url \<or> str_in ''/75x75/'' url)
                 \<and> (min_width s > 100 \<or> min_height s > 100) then s
         else if list_ex (\<lambda>ext. str_in ext (lower url)) [''.jpg'', ''.jpeg'', ''.png'', ''.webp'']
                 \<and> list_ex (\<lambda>pattern. str_in pattern url)
                      [''/originals/'', ''/236x/'', ''/474x/'', ''/736x/'', ''/1200x/'', ''i.pinimg.com'']
         then
           (case convert_to_high_res s url of
              None \<Rightarrow> s
            | Some high_res_url \<Rightarrow>
                if list_ex (\<lambda>pattern. str_in pattern (lower url)) (skip_patterns s) then s
                else s\<lparr>image_urls := insert (high_res_url, rel) (image_urls s)\<rparr>)
         else s)
      else s)"

text \<open>
  \<open>_handle_response(self, response)\<close>: nothing is collected before collection is
  enabled, nor once the candidate set holds three times the limit.
\<close>

definition handle_response :: "scraper \<Rightarrow> response \<Rightarrow> scraper" where
  "handle_response s r =
     (if \<not> start_collecting s then s
      else if limit s \<noteq> 0 \<and> int (card (image_urls s)) \<ge> limit s * 3 then s
      else handle_image (note_search_response s r) r)"

section \<open>SelectionPlanner: the first part of \<open>_download_images\<close>\<close>

text \<open>
  \<open>all_urls = list(self.image_urls)\<close> lists the candidate set in the set's iteration
  order, which Python leaves open. The planner is therefore a function of that list, and
  \<open>list(set(xs))\<close>, used for advertising searches, is a parameter \<open>list_set\<close>.
\<close>

definition relevant_urls :: "(string \<times> bool) list \<Rightarrow> string list" where
  "relevant_urls all_urls = map fst (filter (\<lambda>(url, rel). rel) all_urls)"

definition other_urls :: "(string \<times> bool) list \<Rightarrow> string list" where
  "other_urls all_urls = map fst (filter (\<lambda>(url, rel). \<not> rel) all_urls)"

text \<open>The slice \<open>xs[:n]\<close>; a negative \<open>n\<close> counts from the end.\<close>

definition py_take :: "int \<Rightarrow> 'a list \<Rightarrow> 'a list" where
  "py_take n xs = (if 0 \<le> n then take (nat n) xs else take (length xs - nat (- n)) xs)"

definition get_url_priority :: "string \<Rightarrow> int" where
  "get_url_priority url =
     (if str_in ''/originals/'' url then 5
      else if str_in ''/1200x/'' url then 4
      else if str_in ''/736x/'' url then 3
      else if str_in ''/474x/'' url then 2
      else if str_in ''/236x/'' url then 1
      else 0)"

text \<open>The list \<open>unique_urls\<close> that the planner goes on to sort.\<close>

definition unique_urls ::
  "(string list \<Rightarrow> string list) \<Rightarrow> scraper \<Rightarrow> (string \<times> bool) list \<Rightarrow> string list" where
  "unique_urls list_set s all_urls =
     (if is_ad_search s then list_set (relevant_urls all_urls @ other_urls all_urls)
      else if int (length (relevant_urls all_urls)) \<ge> limit s then relevant_urls all_urls
      else
        (let needed_count = limit s - int (length (relevant_urls all_urls))
         in relevant_urls all_urls @ py_take needed_count (other_urls all_urls)))"

text \<open>
  \<open>sorted(unique_urls, key=get_url_priority, reverse=True)\<close>. Python's sort is stable
  also under \<open>reverse=True\<close>, so it is the stable sort by the negated key.
\<close>

definition sorted_urls :: "string list \<Rightarrow> string list" where
  "sorted_urls urls = sort_key (\<lambda>url. - get_url_priority url) urls"

text \<open>
  The planned list \<open>urls_to_download\<close>; it is empty when the method returns early
  because nothing was found. A limit of 0 is falsy and switches the truncation off.
\<close>

definition urls_to_download ::
  "(string list \<Rightarrow> string list) \<Rightarrow> scraper \<Rightarrow> (string \<times> bool) list \<Rightarrow> string list" where
  "urls_to_download list_set s all_urls =
     (if unique_urls list_set s all_urls = [] then []
      else if limit s \<noteq> 0 then py_take (limit s) (sorted_urls (unique_urls list_set s all_urls))
      else sorted_urls (unique_urls list_set s all_urls))"

section \<open>FetchVerifier: \<open>_download_image\<close>\<close>

text \<open>
  What the world answers to one download. \<open>goto\<close> is the outcome of opening a browser
  page and navigating to the address: an exception, no response, or a response with its
  status, its \<open>content-type\<close> header (empty when absent) and its body (\<open>None\<close> when
  \<open>response.body()\<close> raises). \<open>file_write\<close> is the outcome of writing the file: done, or
  an exception that leaves the given content (or nothing) at the path. The flags say
  whether re-opening the written file, deleting it and closing the browser succeed.
\<close>

datatype goto_result = GotoRaises | NoResponse | Response int string "string option"

datatype write_result = Written | WriteRaises "string option"

record env =
  goto :: goto_result
  file_write :: write_result
  reopen_ok :: bool
  remove_ok :: bool
  close_ok :: bool

type_synonym files = "string \<rightharpoonup> string"

text \<open>
  \<open>PinterestImageScraper._download_image\<close>. \<open>image_size\<close> is the image library:
  the pixel size of the encoded image, \<open>None\<close> when it cannot decode the bytes. The
  result is the returned flag and the files afterwards. An exception inside the inner
  \<open>try\<close> (session, navigation, body, write) is caught there and control reaches the
  final \<open>return True\<close>; so does a failure of the final verification.
\<close>

definition download_image ::
  "(string \<Rightarrow> (int \<times> int) option) \<Rightarrow> scraper \<Rightarrow> env \<Rightarrow> string \<Rightarrow> files \<Rightarrow> bool \<times> files" where
  "download_image image_size s e filepath fs =
     (case goto e of
        GotoRaises \<Rightarrow> (True, fs)
      | NoResponse \<Rightarrow> (False, fs)
      | Response st content_type body \<Rightarrow>
          if st \<noteq> 200 then (False, fs)
          else if \<not> startswith ''image/'' content_type then (False, fs)
          else
            (case body of
               None \<Rightarrow> (True, fs)
             | Some image_data \<Rightarrow>
                 if (case image_size image_data of
                       Some (width, height) \<Rightarrow> width < min_width s \<and> height < min_height s
                     | None \<Rightarrow> False)
                 then (False, fs)
                 else
                   (case file_write e of
                      WriteRaises left \<Rightarrow> (True, fs(filepath := left))
                    | Written \<Rightarrow>
                        (case (if reopen_ok e then image_size image_data else None) of
                           None \<Rightarrow> (True, fs(filepath \<mapsto> image_data))
                         | Some (width, height) \<Rightarrow>
                             if width < min_width s \<and> height < min_height s then
                               (False, if remove_ok e then fs(filepath := None)
                                       else fs(filepath \<mapsto> image_data))
                             else (True, fs(filepath \<mapsto> image_data))))))"

text \<open>
  \<open>PinterestScraper._download_image\<close>, with the scraper's \<open>min_width\<close> and
  \<open>min_height\<close>. It has no content-type check, writes the body before measuring it,
  and every exception ends in \<open>return False\<close>.
\<close>

definition PinterestScraper_download_image ::
  "(string \<Rightarrow> (int \<times> int) option) \<Rightarrow> int \<Rightarrow> int \<Rightarrow> env \<Rightarrow> string \<Rightarrow> files \<Rightarrow> bool \<times> files" where
  "PinterestScraper_download_image image_size mw mh e filepath fs =
     (case goto e of
        GotoRaises \<Rightarrow> (False, fs)
      | NoResponse \<Rightarrow> (False, fs)
      | Response st content_type body \<Rightarrow>
          if st \<noteq> 200 then (False, fs)
          else
            (case body of
               None \<Rightarrow> (False, fs)
             | Some image_data \<Rightarrow>
                 (case file_write e of
                    WriteRaises left \<Rightarrow> (False, fs(filepath := left))
                  | Written \<Rightarrow>
                      (case (if reopen_ok e then image_size image_data else None) of
                         None \<Rightarrow> (False, fs(filepath \<mapsto> image_data))
                       | Some (width, height) \<Rightarrow>
                           if width < mw \<or> height < mh then
                             (False, if remove_ok e then fs(filepath := None)
                                     else fs(filepath \<mapsto> image_data))
                           else (close_ok e, fs(filepath \<mapsto> image_data))))))"

text \<open>
  \<open>PinterestBoardScraper._download_image\<close> has the same body, up to the file name.
\<close>

definition PinterestBoardScraper_download_image ::
  "(string \<Rightarrow> (int \<times> int) option) \<Rightarrow> int \<Rightarrow> int \<Rightarrow> env \<Rightarrow> string \<Rightarrow> files \<Rightarrow> bool \<times> files" where
  "PinterestBoardScraper_download_image image_size mw mh e filepath fs =
     (case goto e of
        GotoRaises \<Rightarrow> (False, fs)
      | NoResponse \<Rightarrow> (False, fs)
      | Response st content_type body \<Rightarrow>
          if st \<noteq> 200 then (False, fs)
          else
            (case body of
               None \<Rightarrow> (False, fs)
             | Some image_data \<Rightarrow>
                 (case file_write e of
                    WriteRaises left \<Rightarrow> (False, fs(filepath := left))
                  | Written \<Rightarrow>
                      (case (if reopen_ok e then image_size image_data else None) of
                         None \<Rightarrow> (False, fs(filepath \<mapsto> image_data))
                       | Some (width, height) \<Rightarrow>
                           if width < mw \<or> height < mh then
                             (False, if remove_ok e then fs(filepath := None)
                                     else fs(filepath \<mapsto> image_data))
                           else (close_ok e, fs(filepath \<mapsto> image_data))))))"

section \<open>The download phase: the second part of \<open>_download_images\<close>\<close>

text \<open>
  One task per planned address, numbered from 0. \<open>world url i\<close> is what the world
  answers to task \<open>i\<close> and \<open>path_of i\<close> the file it writes. The tasks run concurrently
  on files of their own; the count of truthy results, which is all that
  \<open>downloaded_count\<close> records, does not depend on the order in which they finish, and
  the model runs them in index order.
\<close>

fun run_tasks ::
  "(string \<Rightarrow> (int \<times> int) option) \<Rightarrow> (string \<Rightarrow> nat \<Rightarrow> env) \<Rightarrow> (nat \<Rightarrow> string) \<Rightarrow>
   (nat \<times> string) list \<Rightarrow> scraper \<times> files \<Rightarrow> scraper \<times> files" where
  "run_tasks image_size world path_of [] (s, fs) = (s, fs)"
| "run_tasks image_size world path_of ((i, url) # tasks) (s, fs) =
     (case download_image image_size s (world url i) (path_of i) fs of
        (result, fs') \<Rightarrow>
          run_tasks image_size world path_of tasks
            (if result then s\<lparr>downloaded_count := downloaded_count s + 1\<rparr> else s, fs'))"

text \<open>\<open>_download_images(self)\<close>, given the listing \<open>all_urls\<close> of the candidate set.\<close>

definition download_images ::
  "(string list \<Rightarrow> string list) \<Rightarrow> (string \<Rightarrow> (int \<times> int) option) \<Rightarrow> (string \<Rightarrow> nat \<Rightarrow> env) \<Rightarrow>
   (nat \<Rightarrow> string) \<Rightarrow> (string \<times> bool) list \<Rightarrow> scraper \<times> files \<Rightarrow> scraper \<times> files" where
  "download_images list_set image_size world path_of all_urls sf =
     run_tasks image_size world path_of
       (enumerate 0 (urls_to_download list_set (fst sf) all_urls)) sf"

section \<open>Example inputs\<close>

text \<open>
  A search for \<open>cats\<close> with the default floors of 800 pixels and a limit of 50, once
  collection has been enabled; the same run with floors of 100 pixels.
\<close>

definition cats :: scraper where
  "cats = (new_scraper ''cats'' False 800 800 50)\<lparr>start_collecting := True\<rparr>"

definition cats_small :: scraper where
  "cats_small = (new_scraper ''cats'' False 100 100 50)\<lparr>start_collecting := True\<rparr>"

text \<open>The same run with a limit of 3, and with the limit switched off.\<close>

definition cats3 :: scraper where
  "cats3 = cats\<lparr>limit := 3\<rparr>"

definition cats0 :: scraper where
  "cats0 = cats\<lparr>limit := 0\<rparr>"

text \<open>
  A listing of a candidate set with one relevant and five other references; two of the
  others carry no tier marker and come first in the listing.
\<close>

definition scenario_b_candidates :: "(string \<times> bool) list" where
  "scenario_b_candidates =
     [(''https://i.pinimg.com/originals/r1.jpg'', True),
      (''https://i.pinimg.com/a1.jpg'', False),
      (''https://i.pinimg.com/a2.jpg'', False),
      (''https://i.pinimg.com/originals/b1.jpg'', False),
      (''https://i.pinimg.com/originals/b2.jpg'', False),
      (''https://i.pinimg.com/originals/b3.jpg'', False)]"




text \<open>
  A download that is answered with status 200, the given content type and body, and
  where every file operation succeeds; and a download whose navigation raises.
\<close>

definition fetched :: "string \<Rightarrow> string \<Rightarrow> env" where
  "fetched content_type body =
     \<lparr>goto = Response 200 content_type (Some body), file_write = Written,
      reopen_ok = True, remove_ok = True, close_ok = True\<rparr>"

definition unreachable :: env where
  "unreachable =
     \<lparr>goto = GotoRaises, file_write = Written, reopen_ok = True, remove_ok = True,
      close_ok = True\<rparr>"


text \<open>
  Image responses for a micro-thumbnail, and for an address that carries the originals
  marker as well.
\<close>

definition image_60 :: response where
  "image_60 = \<lparr>resource_type = ''image'', response_status = 200,
                response_url = ''https://i.pinimg.com/60x60/ab.jpg'', response_text = None\<rparr>"

definition image_originals_60 :: response where
  "image_originals_60 = \<lparr>resource_type = ''image'', response_status = 200,
                response_url = ''https://i.pinimg.com/originals/60x60/ab.jpg'',
                response_text = None\<rparr>"

section \<open>Facts about strings\<close>

lemma startswith_prefix: "startswith p s \<longleftrightarrow> prefix p s"
  by (induction p s rule: startswith.induct) auto

lemma str_in_sublist: "str_in p s \<longleftrightarrow> sublist p s"
  by (induction s) (auto simp: startswith_prefix sublist_Cons_right)

lemma str_in_replace:
  "old \<noteq> [] \<Longrightarrow> str_in old s \<Longrightarrow> str_in new (replace old new s)"
proof (induction old new s rule: replace.induct)
  case (1 old new)
  then show ?case by simp
next
  case (2 old new c cs)
  show ?case
  proof (cases "startswith old (c # cs)")
    case True
    with 2 show ?thesis by (simp add: str_in_sublist)
  next
    case False
    with 2 have "str_in old cs" by simp
    with 2 False have "str_in new (replace old new cs)" by simp
    with False show ?thesis by (simp add: str_in_sublist sublist_Cons_right)
  qed
qed

section \<open>The normalizer\<close>

text \<open>A rewritten address always carries the originals marker.\<close>

lemma convert_has_originals:
  "convert_to_high_res s url = Some r \<Longrightarrow> r \<noteq> url \<Longrightarrow> str_in ''/originals/'' r"
  unfolding convert_to_high_res_def
  by (auto split: if_splits option.splits intro!: str_in_replace)

text \<open>
  Claim C8. Normalizing is idempotent: whenever the normalizer returns a reference for an
  address, normalizing that reference again returns it unchanged. This holds for every
  address, in or outside the tier grammar.
\<close>

theorem normalize_idempotent:
  assumes "convert_to_high_res s url = Some r"
  shows "convert_to_high_res s r = Some r"
proof (cases "r = url")
  case True
  with assms show ?thesis by simp
next
  case False
  from convert_has_originals[OF assms False] show ?thesis
    by (simp add: convert_to_high_res_def)
qed

theorem normalize_idempotent_witness:
  "convert_to_high_res cats ''https://i.pinimg.com/236x/ab/cd/ef/img.jpg''
     = Some ''https://i.pinimg.com/originals/ab/cd/ef/img.jpg''
   \<and> convert_to_high_res cats ''https://i.pinimg.com/originals/ab/cd/ef/img.jpg''
     = Some ''https://i.pinimg.com/originals/ab/cd/ef/img.jpg''"
proof -
  have h: "convert_to_high_res cats ''https://i.pinimg.com/236x/ab/cd/ef/img.jpg''
             = Some ''https://i.pinimg.com/originals/ab/cd/ef/img.jpg''"
    by code_simp
  from h normalize_idempotent[OF h] show ?thesis by simp
qed

text \<open>
  The search block of the handler leaves the candidate set and the floors alone, and the
  image block returns at once on a micro-thumbnail address when a floor exceeds 100.
\<close>

lemma note_search_response_frame:
  "image_urls (note_search_response s r) = image_urls s
   \<and> min_width (note_search_response s r) = min_width s
   \<and> min_height (note_search_response s r) = min_height s"
  by (simp add: note_search_response_def Let_def split: option.splits)

lemma handle_image_micro:
  assumes "str_in ''/60x60/'' (response_url r) \<or> str_in ''/75x75/'' (response_url r)"
    and "min_width s > 100 \<or> min_height s > 100"
  shows "handle_image s r = s"
  using assms unfolding handle_image_def Let_def
  by (simp del: list_ex_Cons_iff str_in.simps)

text \<open>
  Claim C9. For every observed address with a micro-thumbnail marker (\<open>/60x60/\<close> or
  \<open>/75x75/\<close>), whenever one of the configured floors exceeds 100 pixels: the
  normalizer, whose test for the originals tier comes first, rejects the address when
  it is not of the originals tier; and the collector, which tests the marker before it
  calls the normalizer, admits no candidate for the address at all. So no usable
  reference is ever produced for such an address.
\<close>

theorem micro_rejected:
  assumes "str_in ''/60x60/'' (response_url r) \<or> str_in ''/75x75/'' (response_url r)"
    and "min_width s > 100 \<or> min_height s > 100"
  shows "(\<not> str_in ''/originals/'' (response_url r) \<longrightarrow>
            convert_to_high_res s (response_url r) = None)
         \<and> image_urls (handle_response s r) = image_urls s"
proof
  from assms show "\<not> str_in ''/originals/'' (response_url r) \<longrightarrow>
      convert_to_high_res s (response_url r) = None"
    by (simp add: convert_to_high_res_def)
next
  let ?s1 = "note_search_response s r"
  from assms(2) have "min_width ?s1 > 100 \<or> min_height ?s1 > 100"
    by (simp add: note_search_response_frame)
  from handle_image_micro[OF assms(1) this] have "handle_image ?s1 r = ?s1" .
  then show "image_urls (handle_response s r) = image_urls s"
    by (simp add: handle_response_def note_search_response_frame)
qed

theorem micro_rejected_witness:
  "str_in ''/60x60/'' (response_url image_60)
   \<and> min_width cats > 100
   \<and> \<not> str_in ''/originals/'' (response_url image_60)
   \<and> convert_to_high_res cats (response_url image_60) = None
   \<and> image_urls (handle_response cats image_60) = image_urls cats
   \<and> str_in ''/60x60/'' (response_url image_originals_60)
   \<and> image_urls (handle_response cats image_originals_60) = image_urls cats"
proof -
  have a: "str_in ''/60x60/'' (response_url image_60)
           \<or> str_in ''/75x75/'' (response_url image_60)"
    by code_simp
  have a': "str_in ''/60x60/'' (response_url image_originals_60)
           \<or> str_in ''/75x75/'' (response_url image_originals_60)"
    by code_simp
  have c: "min_width cats > 100 \<or> min_height cats > 100"
    by code_simp
  have b: "\<not> str_in ''/originals/'' (response_url image_60)"
    by code_simp
  have d: "str_in ''/60x60/'' (response_url image_60)"
    and d': "str_in ''/60x60/'' (response_url image_originals_60)"
    and e: "min_width cats > 100"
    by code_simp+
  from micro_rejected[OF a c] micro_rejected[OF a' c] b d d' e show ?thesis by blast
qed

text \<open>
  Claim C10. When both floors are at most 100 pixels, an address with a micro-thumbnail
  marker is returned unchanged: it is neither rejected nor rewritten.
\<close>

theorem micro_unchanged:
  assumes "str_in ''/60x60/'' url \<or> str_in ''/75x75/'' url"
    and "min_width s \<le> 100" and "min_height s \<le> 100"
  shows "convert_to_high_res s url = Some url"
  using assms by (simp add: convert_to_high_res_def)

theorem micro_unchanged_witness:
  "str_in ''/75x75/'' ''https://i.pinimg.com/75x75/ab.jpg''
   \<and> min_width cats_small \<le> 100 \<and> min_height cats_small \<le> 100
   \<and> convert_to_high_res cats_small ''https://i.pinimg.com/75x75/ab.jpg''
       = Some ''https://i.pinimg.com/75x75/ab.jpg''"
proof -
  have a: "str_in ''/60x60/'' ''https://i.pinimg.com/75x75/ab.jpg''
           \<or> str_in ''/75x75/'' ''https://i.pinimg.com/75x75/ab.jpg''"
    by code_simp
  have b: "min_width cats_small \<le> 100" and c: "min_height cats_small \<le> 100"
    by code_simp+
  have d: "str_in ''/75x75/'' ''https://i.pinimg.com/75x75/ab.jpg''"
    by code_simp
  from micro_unchanged[OF a b c] b c d show ?thesis by simp
qed

section \<open>The candidate set\<close>











section \<open>The planner\<close>

lemma length_relevant_other:
  "length (relevant_urls a) + length (other_urls a) = length a"
proof -
  have "(\<lambda>(url, rel). \<not> rel) = (\<lambda>p. \<not> (\<lambda>(url::string, rel). rel) p)" by auto
  then show ?thesis
    unfolding relevant_urls_def other_urls_def length_map
    by (simp only: sum_length_filter_compl)
qed

lemma length_py_take: "0 \<le> n \<Longrightarrow> length (py_take n xs) = min (nat n) (length xs)"
  by (simp add: py_take_def)

lemma length_sorted_urls: "length (sorted_urls xs) = length xs"
  by (simp add: sorted_urls_def)

lemma mset_sorted_urls: "mset (sorted_urls xs) = mset xs"
  by (simp add: sorted_urls_def)






text \<open>
  Claim C5, as stated, fails. The non-relevant references that fill the plan are the
  first ones of the listing, taken before the sort: here the two references without a
  tier marker are planned, and a non-relevant reference of the originals tier is left
  out.
\<close>

theorem plan_scenario_b_counterexample:
  "relevant_urls scenario_b_candidates = [''https://i.pinimg.com/originals/r1.jpg'']
   \<and> length (other_urls scenario_b_candidates) = 5
   \<and> urls_to_download remdups cats3 scenario_b_candidates =
       [''https://i.pinimg.com/originals/r1.jpg'', ''https://i.pinimg.com/a1.jpg'',
        ''https://i.pinimg.com/a2.jpg'']
   \<and> ''https://i.pinimg.com/originals/b1.jpg'' \<in> set (other_urls scenario_b_candidates)
   \<and> get_url_priority ''https://i.pinimg.com/a1.jpg'' = 0
   \<and> get_url_priority ''https://i.pinimg.com/originals/b1.jpg'' = 5"
  by code_simp

text \<open>
  Claim C5, amended. When the selection is not permissive, the candidate set has exactly
  1 relevant and 5 non-relevant references and the limit is 3, the plan has exactly 3
  entries: the relevant reference and the first 2 non-relevant references of the
  candidate listing, the three ordered by resolution-tier priority.
\<close>

theorem plan_scenario_b:
  assumes "\<not> is_ad_search s" and "limit s = 3" and "relevant_urls a = [r]"
    and "length (other_urls a) = 5"
  shows "urls_to_download L s a = sorted_urls (r # take 2 (other_urls a))
         \<and> length (urls_to_download L s a) = 3
         \<and> mset (urls_to_download L s a) = mset (r # take 2 (other_urls a))"
proof -
  from assms have u: "unique_urls L s a = r # take 2 (other_urls a)"
    by (simp add: unique_urls_def py_take_def)
  from assms have l: "length (r # take 2 (other_urls a)) = 3" by simp
  have "urls_to_download L s a = sorted_urls (r # take 2 (other_urls a))"
    using assms(2) l unfolding urls_to_download_def u
    by (simp add: py_take_def length_sorted_urls del: length_Cons list.size)
  with l show ?thesis by (simp add: mset_sorted_urls length_sorted_urls del: length_Cons list.size)
qed

theorem plan_scenario_b_witness:
  "\<not> is_ad_search cats3 \<and> limit cats3 = 3
   \<and> relevant_urls scenario_b_candidates = [''https://i.pinimg.com/originals/r1.jpg'']
   \<and> length (other_urls scenario_b_candidates) = 5
   \<and> urls_to_download remdups cats3 scenario_b_candidates
       = sorted_urls (''https://i.pinimg.com/originals/r1.jpg'' # take 2 (other_urls scenario_b_candidates))
   \<and> length (urls_to_download remdups cats3 scenario_b_candidates) = 3
   \<and> mset (urls_to_download remdups cats3 scenario_b_candidates)
       = mset (''https://i.pinimg.com/originals/r1.jpg'' # take 2 (other_urls scenario_b_candidates))"
proof -
  have a: "\<not> is_ad_search cats3" by code_simp
  have b: "limit cats3 = 3" by code_simp
  have c: "relevant_urls scenario_b_candidates = [''https://i.pinimg.com/originals/r1.jpg'']" by code_simp
  have d: "length (other_urls scenario_b_candidates) = 5" by code_simp
  from plan_scenario_b[OF a b c d, of remdups] a b c d show ?thesis by blast
qed

text \<open>
  Claim C6, as stated, fails: a limit of 0 is falsy and switches the truncation off, so
  the plan is longer than the limit.
\<close>

theorem planner_bound_counterexample:
  "limit cats0 = 0 \<and> length (urls_to_download remdups cats0 scenario_b_candidates) = 1"
  by code_simp

text \<open>
  Claim C6, amended. For every candidate listing, permissive flag and limit of at least
  1, the plan has at most limit entries; and when the selection is not permissive, there
  are fewer relevant references than the limit and enough non-relevant ones to fill the
  shortfall, its length is the minimum of the limit and the number of candidates.
\<close>

theorem planner_bound:
  assumes "0 < limit s"
  shows "int (length (urls_to_download L s a)) \<le> limit s
         \<and> (\<not> is_ad_search s \<and> int (length (relevant_urls a)) < limit s
              \<and> limit s - int (length (relevant_urls a)) \<le> int (length (other_urls a))
            \<longrightarrow> int (length (urls_to_download L s a)) = min (limit s) (int (length a)))"
proof
  from assms show "int (length (urls_to_download L s a)) \<le> limit s"
    by (auto simp: urls_to_download_def length_py_take)
next
  show "\<not> is_ad_search s \<and> int (length (relevant_urls a)) < limit s
          \<and> limit s - int (length (relevant_urls a)) \<le> int (length (other_urls a))
        \<longrightarrow> int (length (urls_to_download L s a)) = min (limit s) (int (length a))"
  proof
    assume h: "\<not> is_ad_search s \<and> int (length (relevant_urls a)) < limit s
          \<and> limit s - int (length (relevant_urls a)) \<le> int (length (other_urls a))"
    then have u: "unique_urls L s a = relevant_urls a @ py_take (limit s - int (length (relevant_urls a))) (other_urls a)"
      by (simp add: unique_urls_def)
    from h have lu: "int (length (unique_urls L s a)) = limit s"
      unfolding u by (auto simp: length_py_take min_def)
    with assms have ne: "unique_urls L s a \<noteq> []" by auto
    from assms ne lu have "int (length (urls_to_download L s a)) = limit s"
      by (simp add: urls_to_download_def length_py_take length_sorted_urls)
    moreover from h length_relevant_other[of a] have "limit s \<le> int (length a)" by linarith
    ultimately show "int (length (urls_to_download L s a)) = min (limit s) (int (length a))" by simp
  qed
qed

theorem planner_bound_witness:
  "0 < limit cats3 \<and> \<not> is_ad_search cats3
   \<and> int (length (relevant_urls scenario_b_candidates)) < limit cats3
   \<and> limit cats3 - int (length (relevant_urls scenario_b_candidates)) \<le> int (length (other_urls scenario_b_candidates))
   \<and> int (length (urls_to_download remdups cats3 scenario_b_candidates)) \<le> limit cats3
   \<and> int (length (urls_to_download remdups cats3 scenario_b_candidates)) = min (limit cats3) (int (length scenario_b_candidates))"
proof -
  have a: "0 < limit cats3" by code_simp
  have b: "\<not> is_ad_search cats3 \<and> int (length (relevant_urls scenario_b_candidates)) < limit cats3
   \<and> limit cats3 - int (length (relevant_urls scenario_b_candidates)) \<le> int (length (other_urls scenario_b_candidates))"
    by code_simp
  from planner_bound[OF a, of remdups scenario_b_candidates] a b show ?thesis by blast
qed




section \<open>The verifier\<close>

text \<open>
  \<open>PinterestImageScraper\<close> refuses a response that is not an image before anything
  is written.
\<close>

lemma download_image_non_image:
  assumes "goto e = Response 200 content_type body" and "\<not> startswith ''image/'' content_type"
  shows "download_image image_size s e filepath fs = (False, fs)"
  using assms by (simp add: download_image_def)

text \<open>
  Claim C3, as stated, fails for \<open>PinterestScraper\<close> and \<open>PinterestBoardScraper\<close>,
  whose check demands both floors: an image of 1000 by 500 pixels under floors of 800
  meets the width floor and is rejected.
\<close>

theorem verifier_leniency_counterexample:
  "fst (PinterestScraper_download_image (\<lambda>b. Some (1000, 500)) 800 800
          (fetched ''image/jpeg'' ''data'') ''out.jpg'' Map.empty) = False"
  by code_simp

text \<open>
  Claim C3, amended. For a fetched image (status 200, an image content type) with
  decoded size \<open>w\<close> by \<open>h\<close>: \<open>PinterestImageScraper\<close> accepts it exactly when it
  meets at least one floor, and when it is below both floors nothing is written.
  \<open>PinterestScraper\<close> and \<open>PinterestBoardScraper\<close>, when the file operations
  succeed, accept it exactly when it meets both floors, and otherwise delete the file
  they wrote.
\<close>

theorem verifier_leniency:
  assumes "goto e = Response 200 content_type (Some image_data)"
    and "startswith ''image/'' content_type"
    and "image_size image_data = Some (w, h)"
  shows "fst (download_image image_size s e filepath fs) = (min_width s \<le> w \<or> min_height s \<le> h)
         \<and> (w < min_width s \<and> h < min_height s \<longrightarrow>
              snd (download_image image_size s e filepath fs) = fs)
         \<and> (file_write e = Written \<and> reopen_ok e \<and> remove_ok e \<and> close_ok e \<longrightarrow>
              PinterestScraper_download_image image_size mw mh e filepath fs =
                (if mw \<le> w \<and> mh \<le> h then (True, fs(filepath \<mapsto> image_data))
                 else (False, fs(filepath := None)))
              \<and> PinterestBoardScraper_download_image image_size mw mh e filepath fs =
                (if mw \<le> w \<and> mh \<le> h then (True, fs(filepath \<mapsto> image_data))
                 else (False, fs(filepath := None))))"
proof (intro conjI impI)
  show "fst (download_image image_size s e filepath fs) = (min_width s \<le> w \<or> min_height s \<le> h)"
    using assms by (cases "file_write e") (auto simp: download_image_def)
next
  assume "w < min_width s \<and> h < min_height s"
  with assms show "snd (download_image image_size s e filepath fs) = fs"
    by (simp add: download_image_def)
next
  assume "file_write e = Written \<and> reopen_ok e \<and> remove_ok e \<and> close_ok e"
  with assms show "PinterestScraper_download_image image_size mw mh e filepath fs =
                (if mw \<le> w \<and> mh \<le> h then (True, fs(filepath \<mapsto> image_data))
                 else (False, fs(filepath := None)))"
    by (auto simp: PinterestScraper_download_image_def)
next
  assume "file_write e = Written \<and> reopen_ok e \<and> remove_ok e \<and> close_ok e"
  with assms show "PinterestBoardScraper_download_image image_size mw mh e filepath fs =
                (if mw \<le> w \<and> mh \<le> h then (True, fs(filepath \<mapsto> image_data))
                 else (False, fs(filepath := None)))"
    by (auto simp: PinterestBoardScraper_download_image_def)
qed

theorem verifier_leniency_witness:
  "fst (download_image (\<lambda>b. Some (1000, 500)) cats (fetched ''image/jpeg'' ''data'') ''out.jpg'' Map.empty)
   \<and> download_image (\<lambda>b. Some (500, 500)) cats (fetched ''image/jpeg'' ''data'') ''out.jpg'' Map.empty
       = (False, Map.empty)
   \<and> PinterestScraper_download_image (\<lambda>b. Some (1000, 500)) 800 800
         (fetched ''image/jpeg'' ''data'') ''out.jpg'' Map.empty = (False, Map.empty)
   \<and> PinterestBoardScraper_download_image (\<lambda>b. Some (1000, 1000)) 800 800
         (fetched ''image/jpeg'' ''data'') ''out.jpg'' Map.empty = (True, [''out.jpg'' \<mapsto> ''data''])"
proof -
  have g: "goto (fetched ''image/jpeg'' ''data'') = Response 200 ''image/jpeg'' (Some ''data'')"
    by (simp add: fetched_def)
  have c: "startswith ''image/'' ''image/jpeg''" by simp
  have f: "file_write (fetched ''image/jpeg'' ''data'') = Written \<and> reopen_ok (fetched ''image/jpeg'' ''data'')
           \<and> remove_ok (fetched ''image/jpeg'' ''data'') \<and> close_ok (fetched ''image/jpeg'' ''data'')"
    by (simp add: fetched_def)
  have m: "min_width cats = 800" "min_height cats = 800"
    by (simp_all add: cats_def new_scraper_def)
  have a: "(\<lambda>b::string. Some (1000::int, 500::int)) ''data'' = Some (1000, 500)" by simp
  have b: "(\<lambda>b::string. Some (500::int, 500::int)) ''data'' = Some (500, 500)" by simp
  have d: "(\<lambda>b::string. Some (1000::int, 1000::int)) ''data'' = Some (1000, 1000)" by simp
  note 1 = verifier_leniency[OF g c a, of cats "''out.jpg''" Map.empty 800 800]
  note 2 = verifier_leniency[OF g c b, of cats "''out.jpg''" Map.empty 800 800]
  note 3 = verifier_leniency[OF g c d, of cats "''out.jpg''" Map.empty 800 800]
  have p1: "fst (download_image (\<lambda>b. Some (1000, 500)) cats (fetched ''image/jpeg'' ''data'') ''out.jpg'' Map.empty)"
    using 1 m by simp
  have p2: "download_image (\<lambda>b. Some (500, 500)) cats (fetched ''image/jpeg'' ''data'') ''out.jpg'' Map.empty
       = (False, Map.empty)"
    using 2 m by (simp add: prod_eq_iff)
  have p3: "PinterestScraper_download_image (\<lambda>b. Some (1000, 500)) 800 800
         (fetched ''image/jpeg'' ''data'') ''out.jpg'' Map.empty = (False, Map.empty)"
    using 1 f by simp
  have p4: "PinterestBoardScraper_download_image (\<lambda>b. Some (1000, 1000)) 800 800
         (fetched ''image/jpeg'' ''data'') ''out.jpg'' Map.empty = (True, [''out.jpg'' \<mapsto> ''data''])"
    using 3 f by simp
  from p1 p2 p3 p4 show ?thesis by blast
qed

text \<open>
  Claim C4 at a failing input. \<open>PinterestScraper\<close> and \<open>PinterestBoardScraper\<close>
  do not look at the content type: an HTML page served with status 200 is written to
  the destination, fails to decode, and is left there when \<open>False\<close> is returned.
\<close>

theorem non_image_left_on_disk:
  "PinterestScraper_download_image (\<lambda>b. None) 800 800
       (fetched ''text/html'' ''<html></html>'') ''out.jpg'' Map.empty
     = (False, [''out.jpg'' \<mapsto> ''<html></html>''])
   \<and> PinterestBoardScraper_download_image (\<lambda>b. None) 800 800
       (fetched ''text/html'' ''<html></html>'') ''out.jpg'' Map.empty
     = (False, [''out.jpg'' \<mapsto> ''<html></html>''])"
  by (simp add: PinterestScraper_download_image_def PinterestBoardScraper_download_image_def
      fetched_def)

section \<open>The download phase\<close>

text \<open>
  Claim C2 at failing inputs. A planned reference whose navigation raises is counted as
  downloaded although nothing was retrieved or written; so is one whose body cannot be
  decoded, which is written without any size check having passed.
\<close>

theorem failed_download_counted:
  "downloaded_count (fst (download_images remdups (\<lambda>b. None) (\<lambda>url i. unreachable)
       (\<lambda>i. ''out.jpg'') [(''https://i.pinimg.com/originals/r1.jpg'', True)]
       (cats, Map.empty))) = 1
   \<and> snd (download_images remdups (\<lambda>b. None) (\<lambda>url i. unreachable)
       (\<lambda>i. ''out.jpg'') [(''https://i.pinimg.com/originals/r1.jpg'', True)]
       (cats, Map.empty)) ''out.jpg'' = None
   \<and> downloaded_count (fst (download_images remdups (\<lambda>b. None)
       (\<lambda>url i. fetched ''image/jpeg'' ''junk'')
       (\<lambda>i. ''out.jpg'') [(''https://i.pinimg.com/originals/r1.jpg'', True)]
       (cats, Map.empty))) = 1"
  by code_simp

end
